theory Spec2Isabelle
  imports Main "HOL-Library.Word" "HOL-Library.Signed_Division"
begin

section \<open>Field-value codec of simplefix-go (fix/types.go)\<close>

text \<open>
  A shallow embedding of the value types of \<^verbatim>\<open>fix/types.go\<close>: the wrappers
  \<^verbatim>\<open>Raw\<close>, \<^verbatim>\<open>String\<close>, \<^verbatim>\<open>Int\<close>, \<^verbatim>\<open>Uint\<close>, \<^verbatim>\<open>Float\<close>, \<^verbatim>\<open>Time\<close>, \<^verbatim>\<open>Bool\<close>
  and the conversion routines they call.

  \<^item> A Go \<^verbatim>\<open>byte\<close> is an \<open>8 word\<close>; a \<^verbatim>\<open>[]byte\<close> is a \<open>byte list option\<close>, where
    \<open>None\<close> is the nil slice and \<open>Some []\<close> the empty, non-nil one.
  \<^item> \<^verbatim>\<open>uint64\<close> is a \<open>64 word\<close>; \<^verbatim>\<open>int\<close> is a \<open>64 word\<close> read with \<open>sint\<close> (the 64-bit
    platforms); \<^verbatim>\<open>int16\<close> is a \<open>16 word\<close>. Arithmetic wraps as in Go.
  \<^item> A method with a pointer receiver takes the struct and returns the updated struct
    next to its result; an \<^verbatim>\<open>error\<close> result is an \<open>error option\<close> (\<open>None\<close> is nil).
  \<^item> A \<^verbatim>\<open>bytes.Buffer\<close> is the list of bytes written so far.
\<close>

subsection \<open>Bytes and errors\<close>

type_synonym byte = "8 word"
type_synonym uint64 = "64 word"
type_synonym go_int = "64 word"
type_synonym int16 = "16 word"

text \<open>The bytes of an ASCII string literal.\<close>

definition bytes :: "string \<Rightarrow> byte list" where
  "bytes s = map of_char s"

text \<open>
  One constructor for each \<^verbatim>\<open>errors.New\<close> / \<^verbatim>\<open>fmt.Errorf\<close> message of the file, one for
  an error handed back by a standard-library parser, and one for the run-time panic of
  an index out of range.
\<close>

datatype error =
    EmptyByteSlice            \<comment> \<open>"invalid input: empty byte slice"\<close>
  | NonNumericCharacter       \<comment> \<open>"invalid input: non-numeric character"\<close>
  | Overflow                  \<comment> \<open>"overflow: value too large for uint64"\<close>
  | EmptyString               \<comment> \<open>"invalid syntax: empty string"\<close>
  | OnlyMinusSign             \<comment> \<open>"invalid syntax: ony minus sign"\<close>
  | InvalidCharacter          \<comment> \<open>"invalid syntax: invalid character"\<close>
  | UnparsableTail            \<comment> \<open>"invalid syntax: unparsable tail left"\<close>
  | CannotParseFractional     \<comment> \<open>"cannot parse fractional part"\<close>
  | CannotParseMantissa       \<comment> \<open>"cannot parse mantissa"\<close>
  | CannotFindMantissa        \<comment> \<open>"cannot find mantissa"\<close>
  | CannotParseExponent       \<comment> \<open>"cannot parse exponent"\<close>
  | CannotParseExponentString \<comment> \<open>"cannot parse exponent from string"\<close>
  | CannotParseExponentStrconv \<comment> \<open>"cannot parse exponent by strconv"\<close>
  | CannotParseExponentTail   \<comment> \<open>"cannot parse exponent tail"\<close>
  | InvalidSyntax             \<comment> \<open>"invalid syntax"\<close>
  | CouldNotConvert           \<comment> \<open>"could not convert %s to %s"\<close>
  | LibraryError              \<comment> \<open>an error of strconv.ParseFloat or time.Parse\<close>
  | IndexOutOfRange           \<comment> \<open>run-time panic\<close>

subsection \<open>Decimal formatting of the standard library\<close>

text \<open>
  \<^verbatim>\<open>strconv.AppendUint(dst, v, 10)\<close> appends the decimal digits of \<open>v\<close>, most
  significant first, without leading zeros; \<^verbatim>\<open>strconv.AppendInt\<close> writes a minus sign
  and the digits of the magnitude for a negative number.
\<close>

fun AppendUint :: "nat \<Rightarrow> byte list" where
  "AppendUint n =
     (if n < 10 then [48 + of_nat n]
      else AppendUint (n div 10) @ [48 + of_nat (n mod 10)])"

declare AppendUint.simps [simp del]

definition AppendInt :: "int \<Rightarrow> byte list" where
  "AppendInt i = (if i < 0 then 45 # AppendUint (nat (- i)) else AppendUint (nat i))"

subsection \<open>Unsigned and signed integer conversion\<close>

definition MaxUint64 :: uint64 where
  "MaxUint64 = 18446744073709551615"

text \<open>The body of the loop of \<^verbatim>\<open>bytesToUint\<close>, over the bytes not yet read.\<close>

fun bytesToUint_loop :: "byte list \<Rightarrow> uint64 \<Rightarrow> uint64 \<times> error option" where
  "bytesToUint_loop [] result = (result, None)"
| "bytesToUint_loop (c # cs) result =
     (if c < 48 \<or> c > 57 then (0, Some NonNumericCharacter)
      else let digit = (ucast (c - 48) :: uint64) in
        if result > MaxUint64 div 10 \<or> (result = MaxUint64 div 10 \<and> digit > MaxUint64 mod 10)
        then (0, Some Overflow)
        else bytesToUint_loop cs (result * 10 + digit))"

definition bytesToUint :: "byte list \<Rightarrow> uint64 \<times> error option" where
  "bytesToUint d =
     (if length d = 0 then (0, Some EmptyByteSlice) else bytesToUint_loop d 0)"

definition uintToBytes :: "uint64 \<Rightarrow> byte list" where
  "uintToBytes v = AppendUint (unat v)"

fun bytesToInt_loop :: "byte list \<Rightarrow> go_int \<Rightarrow> go_int \<times> error option" where
  "bytesToInt_loop [] result = (result, None)"
| "bytesToInt_loop (c # cs) result =
     (if c < 48 \<or> c > 57 then (0, Some NonNumericCharacter)
      else bytesToInt_loop cs (result * 10 + ucast (c - 48)))"

definition bytesToInt :: "byte list \<Rightarrow> go_int \<times> error option" where
  "bytesToInt d =
     (if length d = 0 then (0, Some EmptyByteSlice)
      else let (sign, start) =
                 (if d ! 0 = 45 then (- 1 :: go_int, 1 :: nat)
                  else if d ! 0 = 43 then (1, 1)
                  else (1, 0))
           in case bytesToInt_loop (drop start d) 0 of
                (result, None) \<Rightarrow> (result * sign, None)
              | (_, Some e) \<Rightarrow> (0, Some e))"

definition intToBytes :: "go_int \<Rightarrow> byte list" where
  "intToBytes v = AppendInt (sint v)"

subsection \<open>Int\<close>

record Int_t =
  int_value :: go_int
  int_valid :: bool

definition Int_IsNull :: "Int_t \<Rightarrow> bool" where
  "Int_IsNull v = (\<not> int_valid v)"

definition Int_Value :: "Int_t \<Rightarrow> go_int" where
  "Int_Value v = int_value v"

definition Int_FromBytes :: "Int_t \<Rightarrow> byte list option \<Rightarrow> error option \<times> Int_t" where
  "Int_FromBytes v d =
     (case d of
        None \<Rightarrow> (None, v\<lparr>int_valid := False\<rparr>)
      | Some b \<Rightarrow>
          let (r, err) = bytesToInt b
          in (err, v\<lparr>int_valid := True, int_value := r\<rparr>))"

definition Int_ToBytes :: "Int_t \<Rightarrow> byte list option" where
  "Int_ToBytes v = (if \<not> int_valid v then None else Some (intToBytes (int_value v)))"

definition Int_WriteBytes :: "Int_t \<Rightarrow> byte list \<Rightarrow> byte list \<times> bool" where
  "Int_WriteBytes v writer =
     (if \<not> int_valid v then (writer, False)
      else (writer @ intToBytes (int_value v), True))"

subsection \<open>Bool\<close>

definition True_byte :: byte where "True_byte = 89"
definition False_byte :: byte where "False_byte = 78"

definition trueByte :: "byte list" where "trueByte = [True_byte]"
definition falseByte :: "byte list" where "falseByte = [False_byte]"

record Bool_t =
  bool_value :: bool
  bool_valid :: bool

definition Bool_IsNull :: "Bool_t \<Rightarrow> bool" where
  "Bool_IsNull v = (\<not> bool_valid v)"

definition Bool_Value :: "Bool_t \<Rightarrow> bool" where
  "Bool_Value v = bool_value v"

definition Bool_ToBytes :: "Bool_t \<Rightarrow> byte list option" where
  "Bool_ToBytes v =
     (if \<not> bool_valid v then None
      else if bool_value v then Some trueByte else Some falseByte)"

definition Bool_WriteBytes :: "Bool_t \<Rightarrow> byte list \<Rightarrow> byte list \<times> bool" where
  "Bool_WriteBytes v writer =
     (if \<not> bool_valid v then (writer, False)
      else if bool_value v then (writer @ trueByte, True)
      else (writer @ falseByte, True))"

definition Bool_FromBytes :: "Bool_t \<Rightarrow> byte list option \<Rightarrow> error option \<times> Bool_t" where
  "Bool_FromBytes v d =
     (case d of
        None \<Rightarrow> (None, v\<lparr>bool_valid := False\<rparr>)
      | Some b \<Rightarrow>
          (None, v\<lparr>bool_valid := True, bool_value := (length b > 0 \<and> b ! 0 = True_byte)\<rparr>))"

subsection \<open>Uint\<close>

record Uint_t =
  uint_value :: uint64
  uint_valid :: bool

definition Uint_IsNull :: "Uint_t \<Rightarrow> bool" where
  "Uint_IsNull v = (\<not> uint_valid v)"

definition Uint_Value :: "Uint_t \<Rightarrow> uint64" where
  "Uint_Value v = uint_value v"

definition Uint_FromBytes :: "Uint_t \<Rightarrow> byte list option \<Rightarrow> error option \<times> Uint_t" where
  "Uint_FromBytes v d =
     (case d of
        None \<Rightarrow> (None, v\<lparr>uint_valid := False\<rparr>)
      | Some b \<Rightarrow>
          let (r, err) = bytesToUint b
          in (err, v\<lparr>uint_valid := True, uint_value := r\<rparr>))"

definition Uint_ToBytes :: "Uint_t \<Rightarrow> byte list option" where
  "Uint_ToBytes v = (if \<not> uint_valid v then None else Some (uintToBytes (uint_value v)))"

definition Uint_WriteBytes :: "Uint_t \<Rightarrow> byte list \<Rightarrow> byte list \<times> bool" where
  "Uint_WriteBytes v writer =
     (if \<not> uint_valid v then (writer, False)
      else (writer @ uintToBytes (uint_value v), True))"

subsection \<open>Raw\<close>

text \<open>\<^verbatim>\<open>bytes.Buffer.Write\<close> appends the slice; a nil slice appends nothing.\<close>

definition Buffer_Write :: "byte list \<Rightarrow> byte list option \<Rightarrow> byte list" where
  "Buffer_Write writer p = (case p of None \<Rightarrow> writer | Some b \<Rightarrow> writer @ b)"

record Raw_t =
  raw_value :: "byte list option"

definition Raw_ToBytes :: "Raw_t \<Rightarrow> byte list option" where
  "Raw_ToBytes v = raw_value v"

definition Raw_WriteBytes :: "Raw_t \<Rightarrow> byte list \<Rightarrow> byte list \<times> bool" where
  "Raw_WriteBytes v writer = (Buffer_Write writer (raw_value v), True)"

definition Raw_FromBytes :: "Raw_t \<Rightarrow> byte list option \<Rightarrow> error option \<times> Raw_t" where
  "Raw_FromBytes v d = (None, v\<lparr>raw_value := d\<rparr>)"

definition Raw_IsNull :: "Raw_t \<Rightarrow> bool" where
  "Raw_IsNull v = (raw_value v = None)"

definition Raw_Value :: "Raw_t \<Rightarrow> byte list option" where
  "Raw_Value v = raw_value v"

subsection \<open>String\<close>

text \<open>A Go \<^verbatim>\<open>string\<close> is its sequence of bytes.\<close>

record String_t =
  string_value :: "byte list"
  string_valid :: bool

definition String_ToBytes :: "String_t \<Rightarrow> byte list option" where
  "String_ToBytes v =
     (if \<not> string_valid v \<or> string_value v = [] then None else Some (string_value v))"

definition String_WriteBytes :: "String_t \<Rightarrow> byte list \<Rightarrow> byte list \<times> bool" where
  "String_WriteBytes v writer =
     (if \<not> string_valid v \<or> string_value v = [] then (writer, False)
      else (writer @ string_value v, True))"

definition String_IsNull :: "String_t \<Rightarrow> bool" where
  "String_IsNull v = (\<not> string_valid v)"

definition String_Value :: "String_t \<Rightarrow> byte list" where
  "String_Value v = string_value v"

definition String_FromBytes :: "String_t \<Rightarrow> byte list option \<Rightarrow> error option \<times> String_t" where
  "String_FromBytes v d =
     (case d of
        None \<Rightarrow> (None, v\<lparr>string_valid := False\<rparr>)
      | Some b \<Rightarrow> (None, v\<lparr>string_valid := True, string_value := b\<rparr>))"

subsection \<open>Time\<close>

text \<open>
  A \<^verbatim>\<open>time.Time\<close> is seen through \<^verbatim>\<open>t.Date()\<close>, \<^verbatim>\<open>t.Clock()\<close> and \<^verbatim>\<open>t.Nanosecond()\<close>
  only: the record holds what they return. The values are Go \<^verbatim>\<open>int\<close>s; the arithmetic
  of \<^verbatim>\<open>timeToBytes\<close> on them stays far inside 64 bits, so they are integers here, with
  Go's truncating \<^verbatim>\<open>/\<close> and \<^verbatim>\<open>%\<close> (\<open>sdiv\<close>, \<open>smod\<close>) and the conversion to \<^verbatim>\<open>byte\<close>
  keeping the low 8 bits.
\<close>

record time_Time =
  year :: int
  month :: int
  day :: int
  hour :: int
  minute :: int
  second :: int
  nanosecond :: int

text \<open>The ranges the \<^verbatim>\<open>time\<close> package guarantees for these accessors.\<close>

definition time_ranges :: "time_Time \<Rightarrow> bool" where
  "time_ranges t =
     (1 \<le> month t \<and> month t \<le> 12 \<and> 1 \<le> day t \<and> day t \<le> 31
      \<and> 0 \<le> hour t \<and> hour t \<le> 23 \<and> 0 \<le> minute t \<and> minute t \<le> 59
      \<and> 0 \<le> second t \<and> second t \<le> 59
      \<and> 0 \<le> nanosecond t \<and> nanosecond t \<le> 999999999)"

definition to_byte :: "int \<Rightarrow> byte" where
  "to_byte n = word_of_int n"

definition timeToBytes :: "time_Time \<Rightarrow> byte list" where
  "timeToBytes t =
     (let year = (if year t < 0 then 0 else year t);
          month = month t; day = day t;
          hour = hour t; minute = minute t; second = second t;
          milli = nanosecond t sdiv 1000000
      in [to_byte (48 + year sdiv 1000),
          to_byte (48 + (year sdiv 100) smod 10),
          to_byte (48 + (year sdiv 10) smod 10),
          to_byte (48 + year smod 10),
          to_byte (48 + (month sdiv 10) smod 10),
          to_byte (48 + month smod 10),
          to_byte (48 + (day sdiv 10) smod 10),
          to_byte (48 + day smod 10),
          45,
          to_byte (48 + (hour sdiv 10) smod 10),
          to_byte (48 + hour smod 10),
          58,
          to_byte (48 + (minute sdiv 10) smod 10),
          to_byte (48 + minute smod 10),
          58,
          to_byte (48 + (second sdiv 10) smod 10),
          to_byte (48 + second smod 10),
          46,
          to_byte (48 + milli sdiv 100),
          to_byte (48 + (milli sdiv 10) smod 10),
          to_byte (48 + milli smod 10)])"

record Time_t =
  time_value :: time_Time
  time_valid :: bool

definition Time_IsNull :: "Time_t \<Rightarrow> bool" where
  "Time_IsNull v = (\<not> time_valid v)"

definition Time_Value :: "Time_t \<Rightarrow> time_Time" where
  "Time_Value v = time_value v"

definition Time_ToBytes :: "Time_t \<Rightarrow> byte list option" where
  "Time_ToBytes v = (if \<not> time_valid v then None else Some (timeToBytes (time_value v)))"

definition Time_WriteBytes :: "Time_t \<Rightarrow> byte list \<Rightarrow> byte list \<times> bool" where
  "Time_WriteBytes v writer =
     (if \<not> time_valid v then (writer, False)
      else (writer @ timeToBytes (time_value v), True))"

text \<open>
  \<^verbatim>\<open>time.Parse(TimeLayout, string(d))\<close> is the standard library's parser with a layout
  constant declared outside this file: it is the parameter \<open>Parse\<close>, which returns a
  time and an error as the Go function does. The parser that the specification
  describes is \<open>time_Parse\<close>, defined below.
\<close>

definition Time_FromBytes ::
  "(byte list \<Rightarrow> time_Time \<times> error option) \<Rightarrow> Time_t \<Rightarrow> byte list option
    \<Rightarrow> error option \<times> Time_t" where
  "Time_FromBytes Parse v d =
     (case d of
        None \<Rightarrow> (None, v\<lparr>time_valid := False\<rparr>)
      | Some b \<Rightarrow>
          let (r, err) = Parse b
          in (err, v\<lparr>time_valid := True, time_value := r\<rparr>))"

subsection \<open>Float\<close>

text \<open>
  The type \<^verbatim>\<open>float64\<close> and the operations on it that the file uses are parameters: a
  type \<open>'f\<close> and a record of its operations. \<open>f_of_uint64\<close> is the conversion
  \<^verbatim>\<open>float64(d)\<close>, also used for the literal \<open>0\<close> and for the constants of
  \<^verbatim>\<open>float64pow10\<close>, which are powers of ten that \<^verbatim>\<open>float64\<close> holds exactly.
  \<open>ParseFloat\<close> is \<^verbatim>\<open>strconv.ParseFloat(string(s), 64)\<close> and \<open>AppendFloat\<close> is
  \<^verbatim>\<open>strconv.AppendFloat(make([]byte, 0, 64), f, 'f', -1, 64)\<close>.
\<close>

record 'f float64_ops =
  f_of_uint64 :: "uint64 \<Rightarrow> 'f"
  f_neg :: "'f \<Rightarrow> 'f"
  f_mul :: "'f \<Rightarrow> 'f \<Rightarrow> 'f"
  f_quo :: "'f \<Rightarrow> 'f \<Rightarrow> 'f"
  f_eq :: "'f \<Rightarrow> 'f \<Rightarrow> bool"
  Pow10 :: "int \<Rightarrow> 'f"
  IsInf :: "'f \<Rightarrow> bool"
  ParseFloat :: "byte list \<Rightarrow> 'f \<times> error option"
  AppendFloat :: "'f \<Rightarrow> byte list"

definition f_zero :: "'f float64_ops \<Rightarrow> 'f" where
  "f_zero ops = f_of_uint64 ops 0"

definition floatToBytes :: "'f float64_ops \<Rightarrow> 'f \<Rightarrow> byte list" where
  "floatToBytes ops f = (if f_eq ops f (f_zero ops) then [48] else AppendFloat ops f)"

definition float64pow10 :: "'f float64_ops \<Rightarrow> 'f list" where
  "float64pow10 ops = map (\<lambda>n. f_of_uint64 ops (10 ^ n)) [0..<17]"

definition allowedFloat :: "byte \<Rightarrow> bool" where
  "allowedFloat ch = (ch \<in> set (bytes ''0123456789.eE+-''))"

text \<open>
  The three places where \<^verbatim>\<open>bytesToFloat\<close> gives up and calls the standard parser inside
  the scan: an error that does not come with an infinity is returned, as it is or
  replaced by the message of the place.
\<close>

definition slow_parse ::
  "'f float64_ops \<Rightarrow> byte list \<Rightarrow> (error \<Rightarrow> error) \<Rightarrow> 'f \<times> error option" where
  "slow_parse ops s msg =
     (case ParseFloat ops s of
        (f, Some e) \<Rightarrow> if \<not> IsInf ops f then (f_zero ops, Some (msg e)) else (f, None)
      | (f, None) \<Rightarrow> (f, None))"

text \<open>
  The indices \<open>i\<close>, \<open>j\<close>, \<open>k\<close>, \<open>l\<close> are Go \<^verbatim>\<open>uint\<close>s that never exceed the length of
  the input plus one: natural numbers here, with the wrap-around of the two
  subtractions written out. A loop returns \<open>Inl\<close> when the function returns from
  inside it and \<open>Inr\<close> with its variables when it ends.
\<close>

definition uint_sub :: "nat \<Rightarrow> nat \<Rightarrow> nat" where
  "uint_sub a b = (if b \<le> a then a - b else 2 ^ 64 + a - b)"

function scan_integer ::
  "'f float64_ops \<Rightarrow> byte list \<Rightarrow> nat \<Rightarrow> uint64 \<Rightarrow> ('f \<times> error option) + (nat \<times> uint64)" where
  "scan_integer ops s i d =
     (if i < length s then
        if \<not> allowedFloat (s ! i) then Inl (f_zero ops, Some InvalidCharacter)
        else if s ! i \<ge> 48 \<and> s ! i \<le> 57 then
          if i + 1 > 18 then Inl (slow_parse ops s (\<lambda>e. e))
          else scan_integer ops s (i + 1) (d * 10 + ucast (s ! i - 48))
        else Inr (i, d)
      else Inr (i, d))"
  by pat_completeness auto
termination
  by (relation "measure (\<lambda>(ops, s, i, d). length s - i)") auto

function scan_fraction ::
  "'f float64_ops \<Rightarrow> byte list \<Rightarrow> nat \<Rightarrow> nat \<Rightarrow> uint64
    \<Rightarrow> ('f \<times> error option) + (nat \<times> uint64)" where
  "scan_fraction ops s j i d =
     (if i < length s then
        if s ! i \<ge> 48 \<and> s ! i \<le> 57 then
          if uint_sub (i + 1) j \<ge> length (float64pow10 ops)
          then Inl (slow_parse ops s (\<lambda>e. CannotParseMantissa))
          else scan_fraction ops s j (i + 1) (d * 10 + ucast (s ! i - 48))
        else Inr (i, d)
      else Inr (i, d))"
  by pat_completeness auto
termination
  by (relation "measure (\<lambda>(ops, s, j, i, d). length s - i)") auto

function scan_exponent ::
  "'f float64_ops \<Rightarrow> byte list \<Rightarrow> nat \<Rightarrow> int16 \<Rightarrow> ('f \<times> error option) + (nat \<times> int16)" where
  "scan_exponent ops s i exp =
     (if i < length s then
        if s ! i \<ge> 48 \<and> s ! i \<le> 57 then
          if 32 <s exp * 10 + ucast (s ! i - 48)
          then Inl (slow_parse ops s (\<lambda>e. CannotParseExponentStrconv))
          else scan_exponent ops s (i + 1) (exp * 10 + ucast (s ! i - 48))
        else Inr (i, exp)
      else Inr (i, exp))"
  by pat_completeness auto
termination
  by (relation "measure (\<lambda>(ops, s, i, exp). length s - i)") auto

definition with_sign :: "'f float64_ops \<Rightarrow> bool \<Rightarrow> 'f \<Rightarrow> 'f \<times> error option" where
  "with_sign ops is_minus f = (if is_minus then (f_neg ops f, None) else (f, None))"

text \<open>Lines 680 to 727: the exponent part and the final error.\<close>

definition parse_exponent ::
  "'f float64_ops \<Rightarrow> byte list \<Rightarrow> bool \<Rightarrow> nat \<Rightarrow> 'f \<Rightarrow> 'f \<times> error option" where
  "parse_exponent ops s is_minus i f =
     (let l = length s in
      if \<not> i < l then (f_zero ops, Some IndexOutOfRange)
      else if s ! i = 101 \<or> s ! i = 69 then
        let i = i + 1 in
        if i \<ge> l then (f_zero ops, Some CannotParseExponent)
        else
          let has_sign = (s ! i = 43 \<or> s ! i = 45);
              expMinus = (has_sign \<and> s ! i = 45);
              i = (if has_sign then i + 1 else i)
          in
          if has_sign \<and> i \<ge> l then (f_zero ops, Some CannotParseExponentString)
          else
            let j = i in
            case scan_exponent ops s i 0 of
              Inl r \<Rightarrow> r
            | Inr (i, exp) \<Rightarrow>
                if i \<le> j then (f_zero ops, Some CannotParseExponentTail)
                else
                  let exp = (if expMinus then - exp else exp);
                      f = f_mul ops f (Pow10 ops (sint exp))
                  in if i \<ge> l then with_sign ops is_minus f
                     else (f_zero ops, Some InvalidSyntax)
      else (f_zero ops, Some InvalidSyntax))"

text \<open>Lines 641 to 679: the fractional part.\<close>

definition parse_fraction ::
  "'f float64_ops \<Rightarrow> byte list \<Rightarrow> bool \<Rightarrow> nat \<Rightarrow> nat \<Rightarrow> uint64 \<Rightarrow> 'f \<Rightarrow> 'f \<times> error option" where
  "parse_fraction ops s is_minus j i d f =
     (let l = length s in
      if \<not> i < l then (f_zero ops, Some IndexOutOfRange)
      else if s ! i = 46 then
        let i = i + 1 in
        if i \<ge> l then
          (if l = 2 \<and> s ! 0 = 48 then (f_zero ops, None)
           else (f_zero ops, Some CannotParseFractional))
        else
          let k = i in
          case scan_fraction ops s j i d of
            Inl r \<Rightarrow> r
          | Inr (i, d) \<Rightarrow>
              if i < k then (f_zero ops, Some CannotFindMantissa)
              else if \<not> uint_sub i k < length (float64pow10 ops)
              then (f_zero ops, Some IndexOutOfRange)
              else
                let f = f_quo ops (f_of_uint64 ops d) (float64pow10 ops ! uint_sub i k)
                in if i \<ge> l then with_sign ops is_minus f
                   else parse_exponent ops s is_minus i f
      else parse_exponent ops s is_minus i f)"

definition bytesToFloat :: "'f float64_ops \<Rightarrow> byte list \<Rightarrow> 'f \<times> error option" where
  "bytesToFloat ops s =
     (let l = length s in
      if l = 0 then (f_zero ops, Some EmptyString)
      else
        let is_minus = (s ! 0 = 45);
            i = (if is_minus then 1 else 0)
        in
        if is_minus \<and> i \<ge> l then (f_zero ops, Some OnlyMinusSign)
        else if l > 18 then ParseFloat ops s
        else
          let j = i in
          case scan_integer ops s i 0 of
            Inl r \<Rightarrow> r
          | Inr (i, d) \<Rightarrow>
              let f = f_of_uint64 ops d in
              if (s ! 0 \<noteq> 46 \<or> l = 1) \<and> i \<le> j then (f_zero ops, Some UnparsableTail)
              else if (s ! 0 \<noteq> 46 \<or> l = 1) \<and> i \<ge> l then with_sign ops is_minus f
              else parse_fraction ops s is_minus j i d f)"

text \<open>
  The argument of \<^verbatim>\<open>Set\<close> is an \<^verbatim>\<open>interface{}\<close>: nil, a \<^verbatim>\<open>float64\<close>, or a value of
  another dynamic type.
\<close>

datatype 'f any = Nil_any | Float64_any 'f | Other_any

record 'f Float_t =
  float_source :: "byte list option"
  float_value :: 'f
  float_valid :: bool

definition Float_IsNull :: "'f Float_t \<Rightarrow> bool" where
  "Float_IsNull v = (\<not> float_valid v)"

definition Float_Value :: "'f Float_t \<Rightarrow> 'f" where
  "Float_Value v = float_value v"

definition Float_FromBytes ::
  "'f float64_ops \<Rightarrow> 'f Float_t \<Rightarrow> byte list option \<Rightarrow> error option \<times> 'f Float_t" where
  "Float_FromBytes ops v d =
     (case d of
        None \<Rightarrow> (None, v\<lparr>float_valid := False\<rparr>)
      | Some b \<Rightarrow>
          let (r, err) = bytesToFloat ops b
          in (err, v\<lparr>float_valid := True, float_source := Some b, float_value := r\<rparr>))"

definition Float_ToBytes :: "'f float64_ops \<Rightarrow> 'f Float_t \<Rightarrow> byte list option" where
  "Float_ToBytes ops v =
     (if \<not> float_valid v then None
      else if float_source v \<noteq> None then float_source v
      else Some (floatToBytes ops (float_value v)))"

definition Float_WriteBytes ::
  "'f float64_ops \<Rightarrow> 'f Float_t \<Rightarrow> byte list \<Rightarrow> byte list \<times> bool" where
  "Float_WriteBytes ops v writer =
     (if \<not> float_valid v then (writer, False)
      else if float_source v \<noteq> None then (Buffer_Write writer (float_source v), True)
      else (writer @ AppendFloat ops (float_value v), True))"

definition Float_Set :: "'f Float_t \<Rightarrow> 'f any \<Rightarrow> error option \<times> 'f Float_t" where
  "Float_Set v d =
     (case d of
        Nil_any \<Rightarrow> (None, v\<lparr>float_valid := False\<rparr>)
      | Float64_any res \<Rightarrow> (None, v\<lparr>float_value := res, float_valid := True\<rparr>)
      | Other_any \<Rightarrow> (Some CouldNotConvert, v))"

subsection \<open>Vocabulary of the specification\<close>

text \<open>
  An ASCII digit, and the decimal value of a string of digits read from the left,
  as natural numbers without bound.
\<close>

definition is_digit :: "byte \<Rightarrow> bool" where
  "is_digit c = (48 \<le> c \<and> c \<le> 57)"

definition decimal_from :: "nat \<Rightarrow> byte list \<Rightarrow> nat" where
  "decimal_from a s = foldl (\<lambda>a c. 10 * a + (unat c - 48)) a s"

definition decimal_value :: "byte list \<Rightarrow> nat" where
  "decimal_value s = decimal_from 0 s"

text \<open>
  The layout \<^verbatim>\<open>YYYYMMDD-HH:MM:SS.mmm\<close>: 21 bytes, a digit at each position of a field
  and the separators between the fields. \<open>zero_padded n v\<close> is the decimal numeral of
  \<open>v\<close> in exactly \<open>n\<close> digits, and \<open>timestamp\<close> writes the fields of a time with it.
\<close>

definition timestamp_layout :: "byte list \<Rightarrow> bool" where
  "timestamp_layout bs =
     (length bs = 21
      \<and> list_all (\<lambda>i. is_digit (bs ! i)) [0, 1, 2, 3, 4, 5, 6, 7, 9, 10, 12, 13, 15, 16, 18, 19, 20]
      \<and> bs ! 8 = 45 \<and> bs ! 11 = 58 \<and> bs ! 14 = 58 \<and> bs ! 17 = 46)"

fun zero_padded :: "nat \<Rightarrow> int \<Rightarrow> byte list" where
  "zero_padded 0 v = []"
| "zero_padded (Suc n) v = zero_padded n (v div 10) @ [word_of_int (48 + v mod 10)]"

definition timestamp :: "time_Time \<Rightarrow> byte list" where
  "timestamp t =
     zero_padded 4 (max 0 (year t)) @ zero_padded 2 (month t) @ zero_padded 2 (day t) @ [45]
     @ zero_padded 2 (hour t) @ [58] @ zero_padded 2 (minute t) @ [58]
     @ zero_padded 2 (second t) @ [46] @ zero_padded 3 (nanosecond t div 1000000)"

definition instant_2024 :: time_Time where
  "instant_2024 = \<lparr>year = 2024, month = 3, day = 5, hour = 7, minute = 8, second = 9,
     nanosecond = 123000000\<rparr>"

definition instant_10000 :: time_Time where
  "instant_10000 = \<lparr>year = 10000, month = 1, day = 1, hour = 0, minute = 0, second = 0,
     nanosecond = 0\<rparr>"

subsection \<open>The calendar parser\<close>

text \<open>
  Modelled from the spec: the layout constant \<^verbatim>\<open>TimeLayout\<close> is declared outside this
  file, and \<^verbatim>\<open>time.Parse(TimeLayout, string(d))\<close> is the standard calendar parser
  configured with it. By the specification the layout is \<^verbatim>\<open>YYYYMMDD-HH:MM:SS.mmm\<close>,
  exactly 21 bytes of fixed-width zero-padded fields with the literal separators, and
  a mismatch is an error. \<open>time_Parse\<close> accepts the strings in this layout whose
  fields name a calendar date and a time of day, and returns these fields; with an
  error it returns the zero \<^verbatim>\<open>time.Time\<close>, January 1 of year 1 at 00:00:00.
\<close>

definition number_at :: "byte list \<Rightarrow> nat \<Rightarrow> nat \<Rightarrow> int" where
  "number_at b i n = foldl (\<lambda>a c. 10 * a + (uint c - 48)) 0 (take n (drop i b))"

definition isLeap :: "int \<Rightarrow> bool" where
  "isLeap y = (y mod 4 = 0 \<and> (y mod 400 = 0 \<or> y mod 100 \<noteq> 0))"

definition daysIn :: "int \<Rightarrow> int \<Rightarrow> int" where
  "daysIn m y =
     (if m = 2 then (if isLeap y then 29 else 28)
      else if m = 4 \<or> m = 6 \<or> m = 9 \<or> m = 11 then 30
      else 31)"

definition zero_Time :: time_Time where
  "zero_Time = \<lparr>year = 1, month = 1, day = 1, hour = 0, minute = 0, second = 0,
     nanosecond = 0\<rparr>"

definition time_Parse :: "byte list \<Rightarrow> time_Time \<times> error option" where
  "time_Parse b =
     (if \<not> timestamp_layout b then (zero_Time, Some LibraryError)
      else
        let y = number_at b 0 4; m = number_at b 4 2; d = number_at b 6 2;
            hh = number_at b 9 2; mm = number_at b 12 2; ss = number_at b 15 2;
            ms = number_at b 18 3
        in
        if m < 1 \<or> 12 < m \<or> d < 1 \<or> daysIn m y < d \<or> 24 \<le> hh \<or> 60 \<le> mm \<or> 60 \<le> ss
        then (zero_Time, Some LibraryError)
        else (\<lparr>year = y, month = m, day = d, hour = hh, minute = mm, second = ss,
                nanosecond = ms * 1000000\<rparr>, None))"

definition instant_before_0 :: time_Time where
  "instant_before_0 = \<lparr>year = - 44, month = 3, day = 15, hour = 12, minute = 0, second = 0,
     nanosecond = 0\<rparr>"

section \<open>Properties\<close>

subsection \<open>Decimal strings\<close>

lemma MaxUint64_div_mod:
  "MaxUint64 div 10 = 1844674407370955161" "MaxUint64 mod 10 = 5"
  by (simp_all add: MaxUint64_def)

lemma digit_unat: "is_digit c \<Longrightarrow> 48 \<le> unat c \<and> unat c \<le> 57"
  by (simp add: is_digit_def word_le_nat_alt)

lemma digit_not_rejected: "is_digit c \<Longrightarrow> \<not> (c < 48 \<or> c > 57)"
  by (auto simp: is_digit_def)

lemma digit_ucast:
  assumes "is_digit c"
  shows "unat (ucast (c - 48) :: uint64) = unat c - 48"
proof -
  have "(48 :: byte) \<le> c" using assms by (simp add: is_digit_def)
  then have "unat (c - 48) = unat c - 48" by (simp add: unat_sub)
  moreover have "unat (ucast (c - 48) :: uint64) = unat (c - 48)"
    by (simp add: unsigned_ucast_eq take_bit_nat_eq_self unsigned_less[THEN less_trans])
  ultimately show ?thesis by simp
qed

lemma decimal_from_ge: "a \<le> decimal_from a s"
  unfolding decimal_from_def
proof (induction s arbitrary: a)
  case Nil show ?case by simp
next
  case (Cons c s)
  have "a \<le> 10 * a + (unat c - 48)" by simp
  also have "\<dots> \<le> foldl (\<lambda>a c. 10 * a + (unat c - 48)) (10 * a + (unat c - 48)) s"
    by (rule Cons.IH)
  finally show ?case by simp
qed

lemma decimal_from_Cons:
  "decimal_from a (c # s) = decimal_from (10 * a + (unat c - 48)) s"
  by (simp add: decimal_from_def)

text \<open>One step of the loop: the overflow test is exact.\<close>

lemma overflow_test_exact:
  fixes result digit :: uint64
  assumes "unat digit \<le> 9"
  shows "(result > MaxUint64 div 10 \<or> (result = MaxUint64 div 10 \<and> digit > MaxUint64 mod 10))
         \<longleftrightarrow> 10 * unat result + unat digit > 18446744073709551615"
proof -
  have "(result = 1844674407370955161) = (unat result = 1844674407370955161)"
    by (simp add: word_unat_eq_iff)
  then show ?thesis
    using assms unfolding MaxUint64_div_mod
    by (auto simp add: word_less_nat_alt)
qed

lemma bytesToUint_loop_digits:
  "list_all is_digit cs \<Longrightarrow>
   bytesToUint_loop cs result =
     (if decimal_from (unat result) cs \<le> 18446744073709551615
      then (word_of_nat (decimal_from (unat result) cs), None)
      else (0, Some Overflow))"
proof (induction cs arbitrary: result)
  case Nil
  have "unat result < 2 ^ 64" using unsigned_less[of result] by simp
  then show ?case by (simp add: decimal_from_def)
next
  case (Cons c cs)
  then have dig: "is_digit c" and rest: "list_all is_digit cs" by simp_all
  let ?digit = "ucast (c - 48) :: uint64"
  have ud: "unat ?digit = unat c - 48" by (rule digit_ucast[OF dig])
  have "unat c - 48 \<le> 9" using digit_unat[OF dig] by arith
  then have d9: "unat ?digit \<le> 9" using ud by simp
  let ?n = "10 * unat result + unat ?digit"
  let ?test = "result > MaxUint64 div 10 \<or> (result = MaxUint64 div 10 \<and> ?digit > MaxUint64 mod 10)"
  have test: "?test \<longleftrightarrow> ?n > 18446744073709551615"
    by (rule overflow_test_exact[OF d9])
  have dec: "decimal_from (unat result) (c # cs) = decimal_from ?n cs"
    by (simp add: decimal_from_Cons ud)
  show ?case
  proof (cases "?n > 18446744073709551615")
    case True
    then have "?test" using test by blast
    then have step: "bytesToUint_loop (c # cs) result = (0, Some Overflow)"
      using digit_not_rejected[OF dig] by (simp add: Let_def)
    have "?n \<le> decimal_from ?n cs" by (rule decimal_from_ge)
    with True have "\<not> decimal_from ?n cs \<le> 18446744073709551615" by simp
    then show ?thesis unfolding step dec by simp
  next
    case False
    then have "\<not> ?test" using test by blast
    then have step: "bytesToUint_loop (c # cs) result = bytesToUint_loop cs (result * 10 + ?digit)"
      using digit_not_rejected[OF dig] by (auto simp add: Let_def)
    have "unat (result * 10 + ?digit) = ?n"
      using False by (simp add: unat_word_ariths)
    then show ?thesis
      unfolding step dec using Cons.IH[OF rest, of "result * 10 + ?digit"] by simp
  qed
qed

lemma bytesToUint_digits:
  assumes "s \<noteq> []" and "list_all is_digit s"
  shows "bytesToUint s =
     (if decimal_value s \<le> 18446744073709551615
      then (word_of_nat (decimal_value s), None)
      else (0, Some Overflow))"
  using assms bytesToUint_loop_digits[of s 0]
  by (simp add: bytesToUint_def decimal_value_def)

lemma decimal_from_snoc:
  "decimal_from a (s @ [c]) = 10 * decimal_from a s + (unat c - 48)"
  by (simp add: decimal_from_def)

lemma decimal_value_pos:
  assumes "s \<noteq> []" and "list_all is_digit s" and "hd s \<noteq> 48"
  shows "0 < decimal_value s"
proof -
  obtain c cs where s: "s = c # cs" using assms(1) by (cases s) auto
  have "48 \<le> unat c" using assms(2) s digit_unat by simp
  moreover have "unat c \<noteq> 48" using assms(3) s by (simp add: word_unat_eq_iff)
  ultimately have "0 < unat c - 48" by simp
  also have "\<dots> \<le> decimal_from (unat c - 48) cs" by (rule decimal_from_ge)
  finally show ?thesis by (simp add: decimal_value_def s decimal_from_Cons)
qed

lemma digit_byte: "is_digit c \<Longrightarrow> 48 + word_of_nat (unat c - 48) = c"
  using digit_unat[of c] by (simp add: word_unat_eq_iff unat_word_ariths unat_of_nat)

lemma AppendUint_decimal_value:
  "s \<noteq> [] \<Longrightarrow> list_all is_digit s \<Longrightarrow> s = [48] \<or> hd s \<noteq> 48
   \<Longrightarrow> AppendUint (decimal_value s) = s"
proof (induction s rule: rev_induct)
  case Nil
  then show ?case by simp
next
  case (snoc c xs)
  then have dig: "is_digit c" by simp
  have c9: "unat c - 48 < 10" using digit_unat[OF dig] by arith
  show ?case
  proof (cases "xs = []")
    case True
    then show ?thesis
      using c9 digit_byte[OF dig]
      by (simp add: decimal_value_def decimal_from_def AppendUint.simps)
  next
    case False
    then have hd: "hd xs \<noteq> 48" using snoc.prems(3) by auto
    have digs: "list_all is_digit xs" using snoc.prems(2) by simp
    have IH: "AppendUint (decimal_value xs) = xs"
      using snoc.IH[OF False digs] hd by simp
    have pos: "0 < decimal_value xs" by (rule decimal_value_pos[OF False digs hd])
    let ?n = "decimal_value (xs @ [c])"
    have n: "?n = 10 * decimal_value xs + (unat c - 48)"
      by (simp add: decimal_value_def decimal_from_snoc)
    have "\<not> ?n < 10" using pos n by simp
    moreover have "?n div 10 = decimal_value xs" using n c9 by simp
    moreover have "?n mod 10 = unat c - 48" using n c9 by simp
    ultimately have "AppendUint ?n = AppendUint (decimal_value xs) @ [48 + word_of_nat (unat c - 48)]"
      by (subst AppendUint.simps) simp
    then show ?thesis using IH digit_byte[OF dig] by simp
  qed
qed

text \<open>
  C9. \<^verbatim>\<open>Bool.FromBytes\<close> on a non-nil slice of length zero returns no error and leaves
  the value set (\<^verbatim>\<open>IsNull() == false\<close>) with the native value \<^verbatim>\<open>false\<close>, whatever the
  value held before; \<^verbatim>\<open>ToBytes\<close> then returns the single byte \<open>N\<close>.
\<close>

theorem Bool_FromBytes_empty:
  "fst (Bool_FromBytes v (Some [])) = None
   \<and> Bool_IsNull (snd (Bool_FromBytes v (Some []))) = False
   \<and> Bool_Value (snd (Bool_FromBytes v (Some []))) = False
   \<and> Bool_ToBytes (snd (Bool_FromBytes v (Some []))) = Some (bytes ''N'')"
  by (simp add: Bool_FromBytes_def Bool_IsNull_def Bool_Value_def Bool_ToBytes_def
      falseByte_def False_byte_def bytes_def)

text \<open>
  C10. \<^verbatim>\<open>Int.FromBytes\<close> on the one-byte input \<open>-\<close> or \<open>+\<close> returns no error and sets the
  value to 0, leaving it set (\<^verbatim>\<open>IsNull() == false\<close>), although no digit was read.
\<close>

theorem Int_FromBytes_sign_only:
  "fst (Int_FromBytes v (Some (bytes ''-''))) = None
   \<and> Int_Value (snd (Int_FromBytes v (Some (bytes ''-'')))) = 0
   \<and> Int_IsNull (snd (Int_FromBytes v (Some (bytes ''-'')))) = False
   \<and> fst (Int_FromBytes v (Some (bytes ''+''))) = None
   \<and> Int_Value (snd (Int_FromBytes v (Some (bytes ''+'')))) = 0
   \<and> Int_IsNull (snd (Int_FromBytes v (Some (bytes ''+'')))) = False"
  by (simp add: Int_FromBytes_def bytesToInt_def Int_Value_def Int_IsNull_def bytes_def)

text \<open>
  C5. For a non-empty string of digits, \<^verbatim>\<open>bytesToUint\<close> returns the overflow error
  exactly when the decimal value of the string exceeds the largest \<^verbatim>\<open>uint64\<close>,
  18446744073709551615, and then returns the value 0 with it; a string in range decodes,
  without error and without wrapping, to its decimal value. The test of the loop runs
  before each multiplication and addition (see \<open>bytesToUint_loop\<close>).
\<close>

theorem bytesToUint_overflow:
  assumes "s \<noteq> []" and "list_all is_digit s"
  shows "(snd (bytesToUint s) = Some Overflow \<longleftrightarrow> decimal_value s > 18446744073709551615)
    \<and> (if decimal_value s > 18446744073709551615
        then bytesToUint s = (0, Some Overflow)
        else snd (bytesToUint s) = None \<and> unat (fst (bytesToUint s)) = decimal_value s)"
  using bytesToUint_digits[OF assms] by (simp add: unat_of_nat)

theorem bytesToUint_overflow_witness:
  "bytes ''18446744073709551616'' \<noteq> []
   \<and> list_all is_digit (bytes ''18446744073709551616'')
   \<and> decimal_value (bytes ''18446744073709551616'') = 18446744073709551616
   \<and> bytesToUint (bytes ''18446744073709551616'') = (0, Some Overflow)
   \<and> list_all is_digit (bytes ''18446744073709551615'')
   \<and> snd (bytesToUint (bytes ''18446744073709551615'')) = None
   \<and> unat (fst (bytesToUint (bytes ''18446744073709551615''))) = 18446744073709551615"
proof -
  have a: "bytes ''18446744073709551616'' \<noteq> []"
    and b: "list_all is_digit (bytes ''18446744073709551616'')"
    and c: "bytes ''18446744073709551615'' \<noteq> []"
    and d: "list_all is_digit (bytes ''18446744073709551615'')"
    by (simp_all add: bytes_def is_digit_def)
  have e: "decimal_value (bytes ''18446744073709551616'') = 18446744073709551616"
    and f: "decimal_value (bytes ''18446744073709551615'') = 18446744073709551615"
    by (simp_all add: bytes_def decimal_value_def decimal_from_def)
  show ?thesis
    using bytesToUint_overflow[OF a b] bytesToUint_overflow[OF c d] a b d e f by simp
qed

text \<open>
  C8. For a non-empty string \<open>s\<close> of ASCII digits that is \<open>"0"\<close> or does not start with
  \<open>0\<close>, and whose decimal value is at most 18446744073709551615, \<^verbatim>\<open>Uint.FromBytes\<close>
  succeeds and \<^verbatim>\<open>ToBytes\<close> then returns exactly \<open>s\<close>.
\<close>

theorem Uint_roundtrip:
  assumes "s \<noteq> []" and "list_all is_digit s" and "s = [48] \<or> hd s \<noteq> 48"
    and "decimal_value s \<le> 18446744073709551615"
  shows "fst (Uint_FromBytes v (Some s)) = None
    \<and> Uint_ToBytes (snd (Uint_FromBytes v (Some s))) = Some s"
  using bytesToUint_digits[OF assms(1,2)] AppendUint_decimal_value[OF assms(1,2,3)] assms(4)
  by (simp add: Uint_FromBytes_def Uint_ToBytes_def uintToBytes_def unat_of_nat)

theorem Uint_roundtrip_witness:
  "bytes ''18446744073709551615'' \<noteq> []
   \<and> list_all is_digit (bytes ''18446744073709551615'')
   \<and> hd (bytes ''18446744073709551615'') \<noteq> 48
   \<and> decimal_value (bytes ''18446744073709551615'') \<le> 18446744073709551615
   \<and> fst (Uint_FromBytes \<lparr>uint_value = 7, uint_valid = False\<rparr>
        (Some (bytes ''18446744073709551615''))) = None
   \<and> Uint_ToBytes (snd (Uint_FromBytes \<lparr>uint_value = 7, uint_valid = False\<rparr>
        (Some (bytes ''18446744073709551615'')))) = Some (bytes ''18446744073709551615'')"
proof -
  have a: "bytes ''18446744073709551615'' \<noteq> []"
    and b: "list_all is_digit (bytes ''18446744073709551615'')"
    and c: "hd (bytes ''18446744073709551615'') \<noteq> 48"
    by (simp_all add: bytes_def is_digit_def)
  have d: "decimal_value (bytes ''18446744073709551615'') \<le> 18446744073709551615"
    by (simp add: bytes_def decimal_value_def decimal_from_def)
  show ?thesis
    using Uint_roundtrip[OF a b disjI2[OF c] d, of "\<lparr>uint_value = 7, uint_valid = False\<rparr>"] a b c d
    by simp
qed

subsection \<open>Decoding and the state of a value\<close>

lemma bytesToInt_loop_error_zero:
  "snd (bytesToInt_loop cs result) \<noteq> None \<Longrightarrow> fst (bytesToInt_loop cs result) = 0"
  by (induction cs arbitrary: result) (auto split: if_splits)

lemma bytesToInt_error_zero:
  "snd (bytesToInt d) \<noteq> None \<Longrightarrow> fst (bytesToInt d) = 0"
  by (auto simp: bytesToInt_def Let_def split: if_splits prod.splits option.splits)

lemma bytesToUint_loop_error_zero:
  "snd (bytesToUint_loop cs result) \<noteq> None \<Longrightarrow> fst (bytesToUint_loop cs result) = 0"
  by (induction cs arbitrary: result) (auto simp: Let_def split: if_splits)

lemma bytesToUint_error_zero:
  "snd (bytesToUint d) \<noteq> None \<Longrightarrow> fst (bytesToUint d) = 0"
  using bytesToUint_loop_error_zero[of d 0]
  by (auto simp: bytesToUint_def split: if_splits)

lemma AppendUint_0: "AppendUint 0 = [48]"
  by (simp add: AppendUint.simps)

lemma intToBytes_0: "intToBytes 0 = bytes ''0''"
  by (simp add: intToBytes_def AppendInt_def AppendUint_0 bytes_def)

lemma uintToBytes_0: "uintToBytes 0 = bytes ''0''"
  by (simp add: uintToBytes_def AppendUint_0 bytes_def)

lemma Int_FromBytes_error:
  assumes "fst (Int_FromBytes i (Some d)) \<noteq> None"
  shows "Int_IsNull (snd (Int_FromBytes i (Some d))) = False
       \<and> Int_Value (snd (Int_FromBytes i (Some d))) = 0
       \<and> Int_ToBytes (snd (Int_FromBytes i (Some d))) = Some (bytes ''0'')"
  using assms bytesToInt_error_zero[of d]
  by (simp add: Int_FromBytes_def Int_IsNull_def Int_Value_def Int_ToBytes_def intToBytes_0
      split: prod.splits)

lemma Uint_FromBytes_error:
  assumes "fst (Uint_FromBytes u (Some d)) \<noteq> None"
  shows "Uint_IsNull (snd (Uint_FromBytes u (Some d))) = False
       \<and> Uint_Value (snd (Uint_FromBytes u (Some d))) = 0
       \<and> Uint_ToBytes (snd (Uint_FromBytes u (Some d))) = Some (bytes ''0'')"
  using assms bytesToUint_error_zero[of d]
  by (simp add: Uint_FromBytes_def Uint_IsNull_def Uint_Value_def Uint_ToBytes_def uintToBytes_0
      split: prod.splits)

lemma Float_FromBytes_source:
  "Float_IsNull (snd (Float_FromBytes ops f (Some d))) = False
   \<and> Float_ToBytes ops (snd (Float_FromBytes ops f (Some d))) = Some d"
  by (simp add: Float_FromBytes_def Float_IsNull_def Float_ToBytes_def split: prod.splits)

lemma Time_FromBytes_set:
  "Time_IsNull (snd (Time_FromBytes Parse t (Some d))) = False"
  by (simp add: Time_FromBytes_def Time_IsNull_def split: prod.splits)

lemma FromBytes_stores_result:
  "Int_IsNull (snd (Int_FromBytes i (Some d))) = False
   \<and> Int_Value (snd (Int_FromBytes i (Some d))) = fst (bytesToInt d)
   \<and> Uint_IsNull (snd (Uint_FromBytes u (Some d))) = False
   \<and> Uint_Value (snd (Uint_FromBytes u (Some d))) = fst (bytesToUint d)
   \<and> Float_Value (snd (Float_FromBytes ops f (Some d))) = fst (bytesToFloat ops d)
   \<and> Time_Value (snd (Time_FromBytes Parse t (Some d))) = fst (Parse d)"
  by (simp add: Int_FromBytes_def Int_IsNull_def Int_Value_def Uint_FromBytes_def
      Uint_IsNull_def Uint_Value_def Float_FromBytes_def Float_Value_def
      Time_FromBytes_def Time_Value_def case_prod_beta)

text \<open>
  C1, as the code has it. \<^verbatim>\<open>FromBytes\<close> on non-nil bytes never returns an error for
  \<^verbatim>\<open>Raw\<close>, \<^verbatim>\<open>String\<close> and \<^verbatim>\<open>Bool\<close>. \<^verbatim>\<open>Int\<close>, \<^verbatim>\<open>Uint\<close>, \<^verbatim>\<open>Float\<close> and \<^verbatim>\<open>Time\<close> mark the
  value set and store what the parser returned, whether or not it returned an error:
  after the call \<^verbatim>\<open>IsNull() == false\<close> and \<^verbatim>\<open>Value()\<close> is the parser's value, whatever
  the value held before. After a call that fails, an \<^verbatim>\<open>Int\<close> or a \<^verbatim>\<open>Uint\<close> so holds the
  native value 0 and \<^verbatim>\<open>ToBytes\<close> gives \<open>0\<close>; a \<^verbatim>\<open>Float\<close> keeps the bytes it was given as
  its source, which \<^verbatim>\<open>ToBytes\<close> returns.
\<close>

theorem FromBytes_failure_state:
  "fst (Raw_FromBytes r (Some d)) = None
   \<and> fst (String_FromBytes s (Some d)) = None
   \<and> fst (Bool_FromBytes b (Some d)) = None
   \<and> Int_IsNull (snd (Int_FromBytes i (Some d))) = False
   \<and> Int_Value (snd (Int_FromBytes i (Some d))) = fst (bytesToInt d)
   \<and> (fst (Int_FromBytes i (Some d)) \<noteq> None \<longrightarrow>
        Int_Value (snd (Int_FromBytes i (Some d))) = 0
        \<and> Int_ToBytes (snd (Int_FromBytes i (Some d))) = Some (bytes ''0''))
   \<and> Uint_IsNull (snd (Uint_FromBytes u (Some d))) = False
   \<and> Uint_Value (snd (Uint_FromBytes u (Some d))) = fst (bytesToUint d)
   \<and> (fst (Uint_FromBytes u (Some d)) \<noteq> None \<longrightarrow>
        Uint_Value (snd (Uint_FromBytes u (Some d))) = 0
        \<and> Uint_ToBytes (snd (Uint_FromBytes u (Some d))) = Some (bytes ''0''))
   \<and> Float_IsNull (snd (Float_FromBytes ops f (Some d))) = False
   \<and> Float_Value (snd (Float_FromBytes ops f (Some d))) = fst (bytesToFloat ops d)
   \<and> Float_ToBytes ops (snd (Float_FromBytes ops f (Some d))) = Some d
   \<and> Time_IsNull (snd (Time_FromBytes Parse t (Some d))) = False
   \<and> Time_Value (snd (Time_FromBytes Parse t (Some d))) = fst (Parse d)"
  using Int_FromBytes_error[of i d] Uint_FromBytes_error[of u d]
    Float_FromBytes_source[of ops f d] Time_FromBytes_set[of Parse t d]
    FromBytes_stores_result[of i d u ops f Parse t]
  by (simp add: Raw_FromBytes_def String_FromBytes_def Bool_FromBytes_def)

theorem FromBytes_failure_state_witness:
  "fst (Int_FromBytes \<lparr>int_value = 7, int_valid = True\<rparr> (Some (bytes ''x''))) \<noteq> None
   \<and> Int_Value (snd (Int_FromBytes \<lparr>int_value = 7, int_valid = True\<rparr> (Some (bytes ''x'')))) = 0
   \<and> Int_ToBytes (snd (Int_FromBytes \<lparr>int_value = 7, int_valid = True\<rparr> (Some (bytes ''x''))))
       = Some (bytes ''0'')
   \<and> fst (Uint_FromBytes \<lparr>uint_value = 7, uint_valid = True\<rparr> (Some (bytes ''x''))) \<noteq> None
   \<and> Uint_Value (snd (Uint_FromBytes \<lparr>uint_value = 7, uint_valid = True\<rparr> (Some (bytes ''x'')))) = 0
   \<and> Uint_ToBytes (snd (Uint_FromBytes \<lparr>uint_value = 7, uint_valid = True\<rparr> (Some (bytes ''x''))))
       = Some (bytes ''0'')"
proof -
  have a: "fst (Int_FromBytes \<lparr>int_value = 7, int_valid = True\<rparr> (Some (bytes ''x''))) \<noteq> None"
    by (simp add: Int_FromBytes_def bytesToInt_def bytes_def)
  have b: "fst (Uint_FromBytes \<lparr>uint_value = 7, uint_valid = True\<rparr> (Some (bytes ''x''))) \<noteq> None"
    by (simp add: Uint_FromBytes_def bytesToUint_def bytes_def)
  show ?thesis
    using a b FromBytes_failure_state[where i = "\<lparr>int_value = 7, int_valid = True\<rparr>"
        and u = "\<lparr>uint_value = 7, uint_valid = True\<rparr>" and d = "bytes ''x''"]
    by blast
qed

text \<open>
  The claim as stated fails on an unset \<^verbatim>\<open>Int\<close> that decodes the byte \<open>x\<close>: the call
  returns an error, and \<^verbatim>\<open>IsNull\<close>, \<^verbatim>\<open>Value\<close> and \<^verbatim>\<open>ToBytes\<close> all differ from before.
\<close>

theorem FromBytes_failure_counterexample:
  "fst (Int_FromBytes \<lparr>int_value = 7, int_valid = False\<rparr> (Some (bytes ''x''))) \<noteq> None
   \<and> Int_IsNull \<lparr>int_value = 7, int_valid = False\<rparr>
   \<and> \<not> Int_IsNull (snd (Int_FromBytes \<lparr>int_value = 7, int_valid = False\<rparr> (Some (bytes ''x''))))
   \<and> Int_Value \<lparr>int_value = 7, int_valid = False\<rparr> = 7
   \<and> Int_Value (snd (Int_FromBytes \<lparr>int_value = 7, int_valid = False\<rparr> (Some (bytes ''x'')))) = 0
   \<and> Int_ToBytes \<lparr>int_value = 7, int_valid = False\<rparr> = None
   \<and> Int_ToBytes (snd (Int_FromBytes \<lparr>int_value = 7, int_valid = False\<rparr> (Some (bytes ''x''))))
       = Some (bytes ''0'')"
  by (simp add: Int_FromBytes_def bytesToInt_def bytes_def Int_IsNull_def Int_Value_def
      Int_ToBytes_def intToBytes_def AppendInt_def AppendUint.simps)

text \<open>
  C2. The claim expects \<^verbatim>\<open>Float.Set\<close> with a \<^verbatim>\<open>float64\<close> to discard the source bytes kept
  by \<^verbatim>\<open>FromBytes\<close>. The code of \<^verbatim>\<open>Set\<close> does not touch \<open>source\<close>: after decoding
  \<open>1.50\<close> and a successful \<^verbatim>\<open>Set(x)\<close>, \<^verbatim>\<open>Value\<close> is \<open>x\<close> and \<^verbatim>\<open>ToBytes\<close> still returns
  \<open>1.50\<close>, for every \<open>x\<close>.
\<close>

theorem Float_Set_keeps_source:
  "fst (Float_Set (snd (Float_FromBytes ops v (Some (bytes ''1.50'')))) (Float64_any x)) = None
   \<and> Float_Value (snd (Float_Set (snd (Float_FromBytes ops v (Some (bytes ''1.50''))))
        (Float64_any x))) = x
   \<and> Float_ToBytes ops (snd (Float_Set (snd (Float_FromBytes ops v (Some (bytes ''1.50''))))
        (Float64_any x))) = Some (bytes ''1.50'')"
  by (simp add: Float_Set_def Float_FromBytes_def Float_Value_def Float_ToBytes_def
      split: prod.splits)

text \<open>
  C3. \<^verbatim>\<open>Float.FromBytes\<close> on non-nil bytes followed at once by \<^verbatim>\<open>ToBytes\<close> returns the
  bytes that were given, unchanged: trailing zeros and exponents are kept because the
  input itself is stored and returned. This holds for every non-nil input, so for every
  literal that \<^verbatim>\<open>FromBytes\<close> accepts.
\<close>

theorem Float_roundtrip:
  "Float_ToBytes ops (snd (Float_FromBytes ops v (Some s))) = Some s"
  by (simp add: Float_FromBytes_def Float_ToBytes_def split: prod.splits)

text \<open>
  The literal \<open>1.50e+2\<close>, with a trailing zero and an exponent, is accepted on the fast
  path whatever the floating-point operations are, and comes back byte for byte.
\<close>

theorem Float_roundtrip_witness:
  "\<forall>ops v. fst (Float_FromBytes ops v (Some (bytes ''1.50e+2''))) = None
     \<and> Float_ToBytes ops (snd (Float_FromBytes ops v (Some (bytes ''1.50e+2''))))
         = Some (bytes ''1.50e+2'')"
proof (intro allI conjI)
  fix ops :: "'f float64_ops" and v :: "'f Float_t"
  have "snd (bytesToFloat ops (bytes ''1.50e+2'')) = None"
    by (simp add: bytesToFloat_def bytes_def Let_def parse_fraction_def parse_exponent_def
        with_sign_def allowedFloat_def float64pow10_def uint_sub_def)
  then show "fst (Float_FromBytes ops v (Some (bytes ''1.50e+2''))) = None"
    by (simp add: Float_FromBytes_def case_prod_beta)
  show "Float_ToBytes ops (snd (Float_FromBytes ops v (Some (bytes ''1.50e+2''))))
         = Some (bytes ''1.50e+2'')"
    by (rule Float_roundtrip)
qed

text \<open>
  C6. The claim expects \<^verbatim>\<open>WriteBytes\<close> of an unset value to write nothing and to return
  false. An unset \<^verbatim>\<open>Raw\<close> (nil bytes) writes nothing, but its \<^verbatim>\<open>WriteBytes\<close> returns true.
\<close>

theorem Raw_WriteBytes_unset:
  "Raw_IsNull \<lparr>raw_value = None\<rparr>
   \<and> Raw_WriteBytes \<lparr>raw_value = None\<rparr> writer = (writer, True)"
  by (simp add: Raw_IsNull_def Raw_WriteBytes_def Buffer_Write_def)

text \<open>
  The rest of that claim holds: \<^verbatim>\<open>FromBytes(nil)\<close> succeeds and leaves every variant
  unset, and an unset value encodes to nil and, \<^verbatim>\<open>Raw\<close> apart, reports nothing written.
\<close>

lemma FromBytes_nil:
  "fst (Raw_FromBytes r None) = None \<and> Raw_IsNull (snd (Raw_FromBytes r None))
   \<and> fst (String_FromBytes s None) = None \<and> String_IsNull (snd (String_FromBytes s None))
   \<and> fst (Int_FromBytes i None) = None \<and> Int_IsNull (snd (Int_FromBytes i None))
   \<and> fst (Uint_FromBytes u None) = None \<and> Uint_IsNull (snd (Uint_FromBytes u None))
   \<and> fst (Float_FromBytes ops f None) = None \<and> Float_IsNull (snd (Float_FromBytes ops f None))
   \<and> fst (Time_FromBytes Parse t None) = None \<and> Time_IsNull (snd (Time_FromBytes Parse t None))
   \<and> fst (Bool_FromBytes b None) = None \<and> Bool_IsNull (snd (Bool_FromBytes b None))"
  by (simp add: Raw_FromBytes_def Raw_IsNull_def String_FromBytes_def String_IsNull_def
      Int_FromBytes_def Int_IsNull_def Uint_FromBytes_def Uint_IsNull_def
      Float_FromBytes_def Float_IsNull_def Time_FromBytes_def Time_IsNull_def
      Bool_FromBytes_def Bool_IsNull_def)

lemma unset_encoding:
  "(Raw_IsNull r \<longrightarrow> Raw_ToBytes r = None \<and> fst (Raw_WriteBytes r w) = w)
   \<and> (String_IsNull s \<longrightarrow> String_ToBytes s = None \<and> String_WriteBytes s w = (w, False))
   \<and> (Int_IsNull i \<longrightarrow> Int_ToBytes i = None \<and> Int_WriteBytes i w = (w, False))
   \<and> (Uint_IsNull u \<longrightarrow> Uint_ToBytes u = None \<and> Uint_WriteBytes u w = (w, False))
   \<and> (Float_IsNull f \<longrightarrow> Float_ToBytes ops f = None \<and> Float_WriteBytes ops f w = (w, False))
   \<and> (Time_IsNull t \<longrightarrow> Time_ToBytes t = None \<and> Time_WriteBytes t w = (w, False))
   \<and> (Bool_IsNull b \<longrightarrow> Bool_ToBytes b = None \<and> Bool_WriteBytes b w = (w, False))"
  by (simp add: Raw_IsNull_def Raw_ToBytes_def Raw_WriteBytes_def Buffer_Write_def
      String_IsNull_def String_ToBytes_def
      String_WriteBytes_def Int_IsNull_def Int_ToBytes_def Int_WriteBytes_def
      Uint_IsNull_def Uint_ToBytes_def Uint_WriteBytes_def Float_IsNull_def Float_ToBytes_def
      Float_WriteBytes_def Time_IsNull_def Time_ToBytes_def Time_WriteBytes_def
      Bool_IsNull_def Bool_ToBytes_def Bool_WriteBytes_def)

subsection \<open>Timestamps\<close>

lemma sdiv_nonneg: "0 \<le> a \<Longrightarrow> 0 < b \<Longrightarrow> a sdiv b = a div b" for a b :: int
  by (cases "a = 0") (simp_all add: signed_divide_int_def sgn_if)

lemma smod_nonneg: "0 \<le> a \<Longrightarrow> 0 < b \<Longrightarrow> a smod b = a mod b" for a b :: int
  by (cases "a = 0") (simp_all add: signed_modulo_int_def sgn_if)

lemma zero_padded_2:
  "0 \<le> v \<Longrightarrow> zero_padded 2 v = [to_byte (48 + (v sdiv 10) smod 10), to_byte (48 + v smod 10)]"
  by (simp add: numeral_2_eq_2 sdiv_nonneg smod_nonneg to_byte_def)

lemma div_nonneg_10: "0 \<le> v \<Longrightarrow> 0 \<le> v div 10" 
  and div_nonneg_100: "0 \<le> v \<Longrightarrow> 0 \<le> v div 100" for v :: int
  by simp_all

lemma zero_padded_3:
  assumes "0 \<le> v" and "v \<le> 999"
  shows "zero_padded 3 v =
    [to_byte (48 + v sdiv 100), to_byte (48 + (v sdiv 10) smod 10), to_byte (48 + v smod 10)]"
proof -
  have s: "v sdiv 100 = v div 100" "v sdiv 10 = v div 10" "v smod 10 = v mod 10"
    "(v div 10) smod 10 = v div 10 mod 10"
    using assms(1) div_nonneg_10[OF assms(1)] by (simp_all only: sdiv_nonneg smod_nonneg zero_less_numeral)
  have a: "v div 10 div 10 = v div 100" by (simp add: zdiv_zmult2_eq[symmetric])
  have "v div 100 \<le> 999 div 100" using assms(2) by (rule zdiv_mono1) simp
  then have "v div 100 < 10" by simp
  then have c: "v div 100 mod 10 = v div 100"
    using div_nonneg_100[OF assms(1)] by (rule mod_pos_pos_trivial[rotated])
  have "(3::nat) = Suc (Suc (Suc 0))" by simp
  then have "zero_padded 3 v = zero_padded (Suc (Suc (Suc 0))) v" by (rule arg_cong)
  also have "\<dots> = [word_of_int (48 + v div 10 div 10 mod 10),
      word_of_int (48 + v div 10 mod 10), word_of_int (48 + v mod 10)]"
    by (simp only: zero_padded.simps append.simps)
  finally show ?thesis unfolding s to_byte_def a c .
qed

lemma zero_padded_4:
  assumes "0 \<le> v" and "v \<le> 9999"
  shows "zero_padded 4 v =
    [to_byte (48 + v sdiv 1000), to_byte (48 + (v sdiv 100) smod 10),
     to_byte (48 + (v sdiv 10) smod 10), to_byte (48 + v smod 10)]"
proof -
  have s: "v sdiv 1000 = v div 1000" "v sdiv 100 = v div 100" "v sdiv 10 = v div 10"
    "v smod 10 = v mod 10" "(v div 10) smod 10 = v div 10 mod 10"
    "(v div 100) smod 10 = v div 100 mod 10"
    using assms(1) div_nonneg_10[OF assms(1)] div_nonneg_100[OF assms(1)]
    by (simp_all only: sdiv_nonneg smod_nonneg zero_less_numeral)
  have a: "v div 10 div 10 = v div 100" by (simp add: zdiv_zmult2_eq[symmetric])
  have b: "v div 100 div 10 = v div 1000" by (simp add: zdiv_zmult2_eq[symmetric])
  have "v div 1000 \<le> 9999 div 1000" using assms(2) by (rule zdiv_mono1) simp
  then have "v div 1000 < 10" by simp
  moreover have "0 \<le> v div 1000" using assms(1) by simp
  ultimately have c: "v div 1000 mod 10 = v div 1000" by (rule mod_pos_pos_trivial[rotated])
  have "(4::nat) = Suc (Suc (Suc (Suc 0)))" by simp
  then have "zero_padded 4 v = zero_padded (Suc (Suc (Suc (Suc 0)))) v" by (rule arg_cong)
  also have "\<dots> = [word_of_int (48 + v div 10 div 10 div 10 mod 10),
      word_of_int (48 + v div 10 div 10 mod 10),
      word_of_int (48 + v div 10 mod 10), word_of_int (48 + v mod 10)]"
    by (simp only: zero_padded.simps append.simps)
  finally show ?thesis unfolding s to_byte_def a b c .
qed

lemma is_digit_to_byte: "0 \<le> x \<Longrightarrow> x \<le> 9 \<Longrightarrow> is_digit (to_byte (48 + x))"
proof -
  assume "0 \<le> x" "x \<le> 9"
  then have "x = 0 \<or> x = 1 \<or> x = 2 \<or> x = 3 \<or> x = 4 \<or> x = 5 \<or> x = 6 \<or> x = 7 \<or> x = 8 \<or> x = 9"
    by arith
  then show ?thesis by (auto simp: is_digit_def to_byte_def)
qed

lemma timeToBytes_length: "length (timeToBytes t) = 21"
  by (simp add: timeToBytes_def Let_def)

lemma timeToBytes_separators:
  "timeToBytes t ! 8 = 45 \<and> timeToBytes t ! 11 = 58 \<and> timeToBytes t ! 14 = 58
   \<and> timeToBytes t ! 17 = 46"
  by (simp add: timeToBytes_def Let_def)

lemma timeToBytes_timestamp:
  assumes "time_ranges t" and "year t \<le> 9999"
  shows "timeToBytes t = timestamp t"
proof -
  let ?y = "if year t < 0 then 0 else year t"
  have y: "0 \<le> ?y" "?y \<le> 9999" "max 0 (year t) = ?y" using assms(2) by auto
  have m: "0 \<le> nanosecond t sdiv 1000000" "nanosecond t sdiv 1000000 \<le> 999"
     "nanosecond t div 1000000 = nanosecond t sdiv 1000000"
  proof -
    have ns: "0 \<le> nanosecond t" "nanosecond t \<le> 999999999"
      using assms(1) by (auto simp: time_ranges_def)
    then show "nanosecond t div 1000000 = nanosecond t sdiv 1000000"
      by (simp add: sdiv_nonneg)
    then show "0 \<le> nanosecond t sdiv 1000000" "nanosecond t sdiv 1000000 \<le> 999"
      using ns by (simp_all flip: \<open>nanosecond t div 1000000 = nanosecond t sdiv 1000000\<close>)
  qed
  have r: "0 \<le> month t" "0 \<le> day t" "0 \<le> hour t" "0 \<le> minute t" "0 \<le> second t"
    using assms(1) by (auto simp: time_ranges_def)
  show ?thesis
    unfolding timestamp_def y(3) m(3)
      zero_padded_4[OF y(1,2)] zero_padded_3[OF m(1,2)]
      zero_padded_2[OF r(1)] zero_padded_2[OF r(2)] zero_padded_2[OF r(3)]
      zero_padded_2[OF r(4)] zero_padded_2[OF r(5)]
    by (simp add: timeToBytes_def Let_def)
qed

lemma list_all_zero_padded: "list_all is_digit (zero_padded n v)"
proof (induction n arbitrary: v)
  case 0 show ?case by simp
next
  case (Suc n)
  have "is_digit (to_byte (48 + v mod 10))" by (rule is_digit_to_byte) simp_all
  then show ?case using Suc by (simp add: to_byte_def)
qed

lemma length_zero_padded: "length (zero_padded n v) = n"
  by (induction n arbitrary: v) simp_all

lemma timeToBytes_instant_2024: "timeToBytes instant_2024 = bytes ''20240305-07:08:09.123''"
  by (simp add: timeToBytes_def instant_2024_def bytes_def to_byte_def Let_def
      signed_divide_int_def signed_modulo_int_def)

lemma digit_smod: "0 \<le> a \<Longrightarrow> is_digit (to_byte (48 + a smod 10))" for a :: int
proof -
  assume a: "0 \<le> a"
  have "0 \<le> a mod 10" "a mod 10 < 10" by simp_all
  then have "is_digit (to_byte (48 + a mod 10))" by (intro is_digit_to_byte) simp_all
  then show ?thesis using a by (simp add: smod_nonneg)
qed

lemma digit_sdiv_smod:
  "0 \<le> a \<Longrightarrow> 0 < b \<Longrightarrow> is_digit (to_byte (48 + (a sdiv b) smod 10))" for a b :: int
proof -
  assume a: "0 \<le> a" and b: "0 < b"
  then have "0 \<le> a div b" by (simp add: pos_imp_zdiv_nonneg_iff)
  then have "is_digit (to_byte (48 + (a div b) smod 10))" by (rule digit_smod)
  then show ?thesis using a b by (simp add: sdiv_nonneg)
qed

lemma digit_sdiv:
  fixes a b c :: int
  assumes "0 \<le> a" and "0 < b" and "a \<le> c" and "c div b \<le> 9"
  shows "is_digit (to_byte (48 + a sdiv b))"
proof -
  have "a div b \<le> c div b" using assms(3,2) by (rule zdiv_mono1)
  then have "a div b \<le> 9" using assms(4) by (rule order_trans)
  moreover have "0 \<le> a div b" using assms(1,2) by (simp add: pos_imp_zdiv_nonneg_iff)
  ultimately have "is_digit (to_byte (48 + a div b))" by (intro is_digit_to_byte)
  then show ?thesis using assms(1,2) by (simp add: sdiv_nonneg)
qed

lemma timeToBytes_in_layout:
  assumes "time_ranges t" and "year t \<le> 9999"
  shows "timestamp_layout (timeToBytes t)"
proof -
  let ?y = "if year t < 0 then 0 else year t"
  have y: "0 \<le> ?y" "?y \<le> 9999" using assms(2) by auto
  have n: "0 \<le> nanosecond t" "nanosecond t \<le> 999999999"
    using assms(1) by (auto simp: time_ranges_def)
  have m: "0 \<le> nanosecond t sdiv 1000000" "nanosecond t sdiv 1000000 \<le> 999"
  proof -
    have e: "nanosecond t sdiv 1000000 = nanosecond t div 1000000"
      using n(1) by (simp add: sdiv_nonneg)
    show "0 \<le> nanosecond t sdiv 1000000" unfolding e using n(1) by simp
    have "nanosecond t div 1000000 \<le> 999999999 div 1000000" using n(2) by (rule zdiv_mono1) simp
    then show "nanosecond t sdiv 1000000 \<le> 999" unfolding e by simp
  qed
  have r: "0 \<le> month t" "0 \<le> day t" "0 \<le> hour t" "0 \<le> minute t" "0 \<le> second t"
    using assms(1) by (auto simp: time_ranges_def)
  have y1: "is_digit (to_byte (48 + ?y sdiv 1000))"
    by (rule digit_sdiv[OF y(1) _ y(2)]) simp_all
  have m1: "is_digit (to_byte (48 + (nanosecond t sdiv 1000000) sdiv 100))"
    by (rule digit_sdiv[OF m(1) _ m(2)]) simp_all
  note d = digit_smod[OF y(1)] digit_sdiv_smod[OF y(1)] digit_smod[OF m(1)] digit_sdiv_smod[OF m(1)]
    digit_smod[OF r(1)] digit_sdiv_smod[OF r(1)] digit_smod[OF r(2)] digit_sdiv_smod[OF r(2)]
    digit_smod[OF r(3)] digit_sdiv_smod[OF r(3)] digit_smod[OF r(4)] digit_sdiv_smod[OF r(4)]
    digit_smod[OF r(5)] digit_sdiv_smod[OF r(5)]
  show ?thesis
    unfolding timestamp_layout_def timeToBytes_def Let_def
    using y1 m1 d by simp
qed

lemma timeToBytes_negative_year:
  "year t < 0 \<Longrightarrow> take 4 (timeToBytes t) = bytes ''0000''"
  by (simp add: timeToBytes_def Let_def to_byte_def bytes_def
      signed_divide_int_def signed_modulo_int_def)

lemma time_Parse_instant_2024:
  "time_Parse (bytes ''20240305-07:08:09.123'') = (instant_2024, None)"
  by (simp add: time_Parse_def timestamp_layout_def bytes_def is_digit_def number_at_def
      daysIn_def isLeap_def instant_2024_def Let_def)

text \<open>
  C7, as the code has it. \<^verbatim>\<open>timeToBytes\<close> always produces exactly 21 bytes with the
  separators \<open>-\<close>, \<open>:\<close>, \<open>:\<close>, \<open>.\<close> at offsets 8, 11, 14 and 17, and a negative year is
  written as \<open>0000\<close>. When the fields are in the ranges of the \<^verbatim>\<open>time\<close> package and the
  year is at most 9999, the result is in the layout \<^verbatim>\<open>YYYYMMDD-HH:MM:SS.mmm\<close> and every
  field is the zero-padded decimal numeral of its value. The instant 2024-03-05
  07:08:09.123 is written \<open>20240305-07:08:09.123\<close>; decoding that string with
  \<^verbatim>\<open>Time.FromBytes\<close> succeeds and gives this instant, and \<^verbatim>\<open>ToBytes\<close> then gives the
  string back.
\<close>

theorem timeToBytes_layout:
  "length (timeToBytes t) = 21
   \<and> timeToBytes t ! 8 = 45 \<and> timeToBytes t ! 11 = 58 \<and> timeToBytes t ! 14 = 58
   \<and> timeToBytes t ! 17 = 46
   \<and> (year t < 0 \<longrightarrow> take 4 (timeToBytes t) = bytes ''0000'')
   \<and> (time_ranges t \<and> year t \<le> 9999 \<longrightarrow>
        timestamp_layout (timeToBytes t) \<and> timeToBytes t = timestamp t)
   \<and> timeToBytes instant_2024 = bytes ''20240305-07:08:09.123''
   \<and> fst (Time_FromBytes time_Parse v (Some (bytes ''20240305-07:08:09.123''))) = None
   \<and> Time_Value (snd (Time_FromBytes time_Parse v (Some (bytes ''20240305-07:08:09.123''))))
       = instant_2024
   \<and> Time_ToBytes (snd (Time_FromBytes time_Parse v (Some (bytes ''20240305-07:08:09.123''))))
       = Some (bytes ''20240305-07:08:09.123'')"
  using timeToBytes_length[of t] timeToBytes_separators[of t] timeToBytes_in_layout[of t]
    timeToBytes_timestamp[of t] timeToBytes_negative_year[of t] timeToBytes_instant_2024
    time_Parse_instant_2024
  by (simp add: Time_FromBytes_def Time_ToBytes_def Time_Value_def)

theorem timeToBytes_layout_witness:
  "time_ranges instant_2024 \<and> year instant_2024 \<le> 9999
   \<and> timestamp_layout (timeToBytes instant_2024)
   \<and> timeToBytes instant_2024 = timestamp instant_2024
   \<and> time_ranges instant_before_0 \<and> year instant_before_0 < 0
   \<and> take 4 (timeToBytes instant_before_0) = bytes ''0000''
   \<and> timestamp_layout (timeToBytes instant_before_0)
   \<and> timeToBytes instant_before_0 = bytes ''00000315-12:00:00.000''"
proof -
  have a: "time_ranges instant_2024 \<and> year instant_2024 \<le> 9999"
    by (simp add: time_ranges_def instant_2024_def)
  have b: "time_ranges instant_before_0 \<and> year instant_before_0 < 0
      \<and> year instant_before_0 \<le> 9999"
    by (simp add: time_ranges_def instant_before_0_def)
  have c: "timeToBytes instant_before_0 = bytes ''00000315-12:00:00.000''"
    by (simp add: timeToBytes_def instant_before_0_def bytes_def to_byte_def Let_def
        signed_divide_int_def signed_modulo_int_def)
  from a b c timeToBytes_layout[where t = instant_2024]
    timeToBytes_layout[where t = instant_before_0]
  show ?thesis by blast
qed

text \<open>
  The claim as stated fails at the year 10000: the first byte is \<open>'0' + year/1000\<close>,
  there the byte \<open>:\<close>, so the result is not in the layout.
\<close>

theorem timeToBytes_layout_counterexample:
  "time_ranges instant_10000
   \<and> \<not> timestamp_layout (timeToBytes instant_10000)
   \<and> timeToBytes instant_10000 = bytes '':0000101-00:00:00.000''"
  by (simp add: timeToBytes_def instant_10000_def time_ranges_def timestamp_layout_def
      to_byte_def Let_def signed_divide_int_def signed_modulo_int_def is_digit_def bytes_def)

end
